theory Spec2Isabelle
  imports Complex_Main "HOL-Library.Word"
begin

section \<open>JavaScript strings and the two string operations the handler uses\<close>

text \<open>
  A JavaScript string is a sequence of UTF-16 code units. Both \<^verbatim>\<open>String.prototype.trim\<close>
  and the regular expression class \<^verbatim>\<open>\s\<close> use the same set of code units: the
  ECMAScript WhiteSpace and LineTerminator productions, all of them in the Basic
  Multilingual Plane.
\<close>

type_synonym jschar = "16 word"
type_synonym jsstring = "jschar list"

definition isWhiteSpace :: "jschar \<Rightarrow> bool" where
  "isWhiteSpace c \<longleftrightarrow>
     c \<in> set [0x0009, 0x000A, 0x000B, 0x000C, 0x000D, 0x0020, 0x00A0, 0x1680,
              0x2028, 0x2029, 0x202F, 0x205F, 0x3000, 0xFEFF]
     \<or> (0x2000 \<le> c \<and> c \<le> 0x200A)"

text \<open>\<^verbatim>\<open>s.trim()\<close>: the white space at both ends is removed.\<close>

definition trim :: "jsstring \<Rightarrow> jsstring" where
  "trim s = rev (dropWhile isWhiteSpace (rev (dropWhile isWhiteSpace s)))"

text \<open>
  \<^verbatim>\<open>s.split(/\s+/)\<close>. The loop of the ECMAScript split algorithm walks the string; at
  a white space code unit the greedy \<^verbatim>\<open>\s+\<close> matches the whole run, the piece read so
  far is pushed and reading goes on after the run. At the end the last piece is pushed,
  also when it is empty. On the empty string the result is the one-element array
  \<^verbatim>\<open>[""]\<close>, since \<^verbatim>\<open>\s+\<close> does not match it.
\<close>

function splitLoop :: "jsstring \<Rightarrow> jsstring \<Rightarrow> jsstring list" where
  "splitLoop piece [] = [piece]"
| "splitLoop piece (c # cs) =
     (if isWhiteSpace c then piece # splitLoop [] (dropWhile isWhiteSpace cs)
      else splitLoop (piece @ [c]) cs)"
  by pat_completeness auto
termination
  by (relation "measure (\<lambda>(piece, s). length s)")
     (auto simp: less_Suc_eq_le length_dropWhile_le)

definition split_ws :: "jsstring \<Rightarrow> jsstring list" where
  "split_ws s = splitLoop [] s"

text \<open>An ASCII literal of the source as a JavaScript string.\<close>

definition ascii :: "string \<Rightarrow> jsstring" where
  "ascii cs = map of_char cs"

subsection \<open>The spec's word count\<close>

text \<open>
  The spec counts the whitespace-delimited tokens of a text: its maximal runs of code
  units that are not white space. This definition follows the spec's words, not the code.
\<close>

fun tokensFrom :: "jsstring \<Rightarrow> jsstring \<Rightarrow> jsstring list" where
  "tokensFrom cur [] = (if cur = [] then [] else [cur])"
| "tokensFrom cur (c # cs) =
     (if isWhiteSpace c then (if cur = [] then tokensFrom [] cs else cur # tokensFrom [] cs)
      else tokensFrom (cur @ [c]) cs)"

definition tokens :: "jsstring \<Rightarrow> jsstring list" where
  "tokens s = tokensFrom [] s"

definition tokenCount :: "jsstring \<Rightarrow> nat" where
  "tokenCount s = length (tokens s)"

section \<open>Values, errors and responses\<close>

text \<open>
  What \<^verbatim>\<open>express.json()\<close> can leave in \<^verbatim>\<open>req.body\<close> and its properties. A number is
  given by its value (JSON has no \<^verbatim>\<open>NaN\<close>); the handler only tests whether it is zero.
\<close>

datatype jsvalue =
    JUndefined
  | JNull
  | JBool bool
  | JNum rat
  | JStr jsstring
  | JArr "jsvalue list"
  | JObj "(jsstring \<times> jsvalue) list"

text \<open>\<^verbatim>\<open>ToBoolean\<close>: what \<^verbatim>\<open>!text\<close> and \<^verbatim>\<open>x || y\<close> test.\<close>

fun truthy :: "jsvalue \<Rightarrow> bool" where
  "truthy JUndefined = False"
| "truthy JNull = False"
| "truthy (JBool b) = b"
| "truthy (JNum n) = (n \<noteq> 0)"
| "truthy (JStr s) = (s \<noteq> [])"
| "truthy (JArr xs) = True"
| "truthy (JObj kvs) = True"

text \<open>
  What the \<^verbatim>\<open>try\<close> block can throw: a \<^verbatim>\<open>TypeError\<close> of the language (it has no
  \<^verbatim>\<open>code\<close> property) or the error the upstream client rejects with, of which the handler
  reads \<^verbatim>\<open>error.code\<close>.
\<close>

datatype js_error = TypeError | APIError (apiCode: jsvalue)

fun code :: "js_error \<Rightarrow> jsvalue" where
  "code TypeError = JUndefined"
| "code (APIError c) = c"

datatype body =
    ErrorBody string
  | HumanizeBody (humanizedText: jsstring) (originalWordCount: nat) (humanizedWordCount: nat)
  | HealthBody (healthStatus: string) (service: string) (timestamp: jsstring)
  | Banner
  | NotFound

record response =
  status :: nat
  body :: body

definition json :: "nat \<Rightarrow> body \<Rightarrow> response" where
  "json st b = \<lparr>status = st, body = b\<rparr>"

section \<open>The upstream completion\<close>

text \<open>
  The completion object as far as the handler reads it:
  \<^verbatim>\<open>completion?.choices?.[0]?.message?.content\<close>. Every level may be missing.
\<close>

record message =
  content :: "jsstring option"

record choice =
  message :: "message option"

record completion =
  choices :: "choice list option"

text \<open>
  \<^verbatim>\<open>openai.chat.completions.create\<close> is a parameter of the model: given the user
  message it rejects with an error or resolves with a completion.
\<close>

type_synonym upstream = "jsstring \<Rightarrow> js_error + completion option"

text \<open>The optional chain of \<^verbatim>\<open>server.js\<close>: \<^verbatim>\<open>undefined\<close> as soon as a level is missing.\<close>

definition firstContent :: "completion option \<Rightarrow> jsstring option" where
  "firstContent c =
     (case c of None \<Rightarrow> None
      | Some cm \<Rightarrow> (case choices cm of None \<Rightarrow> None
        | Some [] \<Rightarrow> None
        | Some (ch # _) \<Rightarrow> (case message ch of None \<Rightarrow> None
          | Some m \<Rightarrow> content m)))"

text \<open>
  The plain property chain of the earlier version,
  \<^verbatim>\<open>completion.choices[0].message.content\<close>: reading a property of \<^verbatim>\<open>undefined\<close>
  throws; a \<^verbatim>\<open>null\<close> content is read without error.
\<close>

definition firstContentStrict :: "completion option \<Rightarrow> js_error + jsstring option" where
  "firstContentStrict c =
     (case c of None \<Rightarrow> Inl TypeError
      | Some cm \<Rightarrow> (case choices cm of None \<Rightarrow> Inl TypeError
        | Some [] \<Rightarrow> Inl TypeError
        | Some (ch # _) \<Rightarrow> (case message ch of None \<Rightarrow> Inl TypeError
          | Some m \<Rightarrow> Inr (content m))))"

section \<open>The handler of POST /api/humanize\<close>

text \<open>What a handler run leaves: the response and the user messages sent upstream.\<close>

record outcome =
  reply :: response
  upstreamCalls :: "jsstring list"

text \<open>
  \<^verbatim>\<open>const { text } = req.body\<close>: destructuring \<^verbatim>\<open>undefined\<close> or \<^verbatim>\<open>null\<close> throws;
  an object gives its property (the last of duplicate keys, as \<^verbatim>\<open>JSON.parse\<close> keeps
  it), anything else has no own property \<^verbatim>\<open>text\<close>.
\<close>

fun textOf :: "jsvalue \<Rightarrow> js_error + jsvalue" where
  "textOf JUndefined = Inl TypeError"
| "textOf JNull = Inl TypeError"
| "textOf (JObj kvs) =
     (case map_of (rev kvs) (ascii ''text'') of None \<Rightarrow> Inr JUndefined | Some v \<Rightarrow> Inr v)"
| "textOf _ = Inr JUndefined"

text \<open>
  The two checks of the handler. \<^verbatim>\<open>text.trim()\<close> on a truthy value that is not a string
  throws, since such a value has no callable \<^verbatim>\<open>trim\<close>.
\<close>

datatype validation = Invalid response | Valid jsstring nat

definition validate :: "jsvalue \<Rightarrow> js_error + validation" where
  "validate text =
     (if \<not> truthy text then Inr (Invalid (json 400 (ErrorBody ''Please provide text to humanize'')))
      else case text of
        JStr s \<Rightarrow>
          (if trim s = [] then Inr (Invalid (json 400 (ErrorBody ''Please provide text to humanize'')))
           else let wordCount = length (split_ws (trim s)) in
             if wordCount > 1000 then Inr (Invalid (json 400 (ErrorBody ''Text exceeds 1000 words limit'')))
             else Inr (Valid s wordCount))
      | _ \<Rightarrow> Inl TypeError)"

text \<open>The \<^verbatim>\<open>catch\<close> block, the same in both versions.\<close>

definition catchError :: "js_error \<Rightarrow> response" where
  "catchError e =
     (if code e = JStr (ascii ''insufficient_quota'')
      then json 500 (ErrorBody ''API quota exceeded. Please check your OpenAI account.'')
      else if code e = JStr (ascii ''invalid_api_key'')
      then json 500 (ErrorBody ''Invalid API key. Please check your configuration.'')
      else json 500 (ErrorBody ''Failed to humanize text. Please try again.''))"

text \<open>The response of \<^verbatim>\<open>server.js\<close> after the upstream call has resolved.\<close>

definition shape :: "nat \<Rightarrow> completion option \<Rightarrow> response" where
  "shape wordCount c =
     (let humanizedText = (case firstContent c of None \<Rightarrow> [] | Some t \<Rightarrow> t) in
      json 200 (HumanizeBody (trim humanizedText) wordCount
        (if humanizedText \<noteq> [] then length (split_ws (trim humanizedText)) else 0)))"

text \<open>
  The handler of \<^verbatim>\<open>server.js\<close>. Whatever is thrown inside the \<^verbatim>\<open>try\<close> block, by the
  language or by the upstream call, is answered by the \<^verbatim>\<open>catch\<close> block; the two early
  \<^verbatim>\<open>return\<close>s of the validation end the handler before the upstream call.
\<close>

definition humanize :: "upstream \<Rightarrow> jsvalue \<Rightarrow> outcome" where
  "humanize up reqBody =
     (case textOf reqBody of
        Inl e \<Rightarrow> \<lparr>reply = catchError e, upstreamCalls = []\<rparr>
      | Inr text \<Rightarrow>
        (case validate text of
           Inl e \<Rightarrow> \<lparr>reply = catchError e, upstreamCalls = []\<rparr>
         | Inr (Invalid r) \<Rightarrow> \<lparr>reply = r, upstreamCalls = []\<rparr>
         | Inr (Valid s wordCount) \<Rightarrow>
           (case up s of
              Inl e \<Rightarrow> \<lparr>reply = catchError e, upstreamCalls = [s]\<rparr>
            | Inr c \<Rightarrow> \<lparr>reply = shape wordCount c, upstreamCalls = [s]\<rparr>)))"

text \<open>
  The earlier version of the handler (\<^verbatim>\<open>src/unnamed/part_000\<close>): the same validation and
  \<^verbatim>\<open>catch\<close>, but the content is read by the plain property chain, is not trimmed, and
  \<^verbatim>\<open>humanizedText.split\<close> throws on a \<^verbatim>\<open>null\<close> content.
\<close>

definition shapeV0 :: "nat \<Rightarrow> completion option \<Rightarrow> js_error + response" where
  "shapeV0 wordCount c =
     (case firstContentStrict c of
        Inl e \<Rightarrow> Inl e
      | Inr None \<Rightarrow> Inl TypeError
      | Inr (Some t) \<Rightarrow>
          Inr (json 200 (HumanizeBody t wordCount (length (split_ws t)))))"

definition humanizeV0 :: "upstream \<Rightarrow> jsvalue \<Rightarrow> outcome" where
  "humanizeV0 up reqBody =
     (case textOf reqBody of
        Inl e \<Rightarrow> \<lparr>reply = catchError e, upstreamCalls = []\<rparr>
      | Inr text \<Rightarrow>
        (case validate text of
           Inl e \<Rightarrow> \<lparr>reply = catchError e, upstreamCalls = []\<rparr>
         | Inr (Invalid r) \<Rightarrow> \<lparr>reply = r, upstreamCalls = []\<rparr>
         | Inr (Valid s wordCount) \<Rightarrow>
           (case up s of
              Inl e \<Rightarrow> \<lparr>reply = catchError e, upstreamCalls = [s]\<rparr>
            | Inr c \<Rightarrow>
              (case shapeV0 wordCount c of
                 Inl e \<Rightarrow> \<lparr>reply = catchError e, upstreamCalls = [s]\<rparr>
               | Inr r \<Rightarrow> \<lparr>reply = r, upstreamCalls = [s]\<rparr>))))"

section \<open>The daily quota\<close>

text \<open>
  \<^verbatim>\<open>const RATE_LIMIT_POINTS = parseInt(process.env.RATE_LIMIT_POINTS, 10) || 1000\<close>.
  The argument is what \<^verbatim>\<open>parseInt\<close> returned, \<open>None\<close> for \<^verbatim>\<open>NaN\<close>; both \<^verbatim>\<open>NaN\<close>
  and 0 are falsy and give the default.
\<close>

definition RATE_LIMIT_POINTS :: "int option \<Rightarrow> int" where
  "RATE_LIMIT_POINTS parsed =
     (case parsed of None \<Rightarrow> 1000 | Some n \<Rightarrow> if n = 0 then 1000 else n)"

text \<open>\<^verbatim>\<open>duration: 24 * 60 * 60\<close>, in seconds.\<close>

definition duration :: nat where
  "duration = 24 * 60 * 60"

type_synonym clientId = jsstring

datatype admission = Admitted | Rejected

record ClientQuotaRecord =
  consumedCount :: nat
  windowStart :: nat

type_synonym quotaStore = "clientId \<rightharpoonup> ClientQuotaRecord"

text \<open>
  Modelled from the spec: the window of a client at the time \<open>now\<close> (in milliseconds).
  The code that keeps the windows, \<^verbatim>\<open>RateLimiterMemory\<close> of the package
  \<^verbatim>\<open>rate-limiter-flexible\<close>, is not under \<^verbatim>\<open>src/\<close>. The spec: a new window starts
  for a client the first time it is seen, or once its previous window's 24 hours have
  elapsed; the counter is 0 at that boundary.
\<close>

definition currentWindow :: "nat \<Rightarrow> quotaStore \<Rightarrow> clientId \<Rightarrow> ClientQuotaRecord" where
  "currentWindow now store k =
     (case store k of
        None \<Rightarrow> \<lparr>consumedCount = 0, windowStart = now\<rparr>
      | Some r \<Rightarrow>
          if windowStart r + duration * 1000 \<le> now
          then \<lparr>consumedCount = 0, windowStart = now\<rparr>
          else r)"

text \<open>
  Modelled from the spec: \<^verbatim>\<open>admit(clientId)\<close>, which stands for
  \<^verbatim>\<open>rateLimiter.consume(req.ip)\<close> of the package that is not under \<^verbatim>\<open>src/\<close>. The
  spec: each call either increments the consumed-count of the client's current window
  and returns Admitted, or, if the consumed-count has already reached the capacity within
  the still-active window, returns Rejected without incrementing further.
\<close>

definition admit :: "int \<Rightarrow> nat \<Rightarrow> clientId \<Rightarrow> quotaStore \<Rightarrow> admission \<times> quotaStore" where
  "admit capacity now k store =
     (let r = currentWindow now store k in
      if capacity \<le> int (consumedCount r) then (Rejected, store(k \<mapsto> r))
      else (Admitted, store(k \<mapsto> r\<lparr>consumedCount := Suc (consumedCount r)\<rparr>)))"

section \<open>The application\<close>

text \<open>
  The middleware and routes of \<^verbatim>\<open>server.js\<close> in the order they are registered, for
  a request that \<^verbatim>\<open>cors()\<close> and \<^verbatim>\<open>express.json()\<close> have passed on. The route is the one
  the Express router matches the request with.
\<close>

datatype route = GetRoot | PostHumanize | GetHealth | NoRoute

record request =
  route :: route
  ip :: clientId
  reqBody :: jsvalue

text \<open>
  The rate limiting middleware. The limiter is a parameter: \<open>consume k st\<close> resolves
  (\<open>Admitted\<close>) or rejects (\<open>Rejected\<close>) and leaves a new state. \<open>None\<close> is \<^verbatim>\<open>next()\<close>.
\<close>

definition rateLimitMiddleware ::
  "(clientId \<Rightarrow> 'st \<Rightarrow> admission \<times> 'st) \<Rightarrow> request \<Rightarrow> 'st \<Rightarrow> response option \<times> 'st" where
  "rateLimitMiddleware consume req st =
     (case consume (ip req) st of
        (Admitted, st') \<Rightarrow> (None, st')
      | (Rejected, st') \<Rightarrow>
          (Some (json 429 (ErrorBody
             ''Free daily limit reached. Please try again tomorrow or consider upgrading for higher limits.'')),
           st'))"

text \<open>
  The health check; \<open>isoNow\<close> is the string \<^verbatim>\<open>new Date().toISOString()\<close> returns,
  which is in the ISO-8601 format by the language's definition.
\<close>

definition health :: "jsstring \<Rightarrow> response" where
  "health isoNow = json 200 (HealthBody ''OK'' ''Humanivio API'' isoNow)"

definition app ::
  "(clientId \<Rightarrow> 'st \<Rightarrow> admission \<times> 'st) \<Rightarrow> upstream \<Rightarrow> jsstring \<Rightarrow> request \<Rightarrow> 'st
     \<Rightarrow> outcome \<times> 'st" where
  "app consume up isoNow req st =
     (if route req = GetRoot then (\<lparr>reply = json 200 Banner, upstreamCalls = []\<rparr>, st)
      else case rateLimitMiddleware consume req st of
        (Some r, st') \<Rightarrow> (\<lparr>reply = r, upstreamCalls = []\<rparr>, st')
      | (None, st') \<Rightarrow>
          (case route req of
             PostHumanize \<Rightarrow> (humanize up (reqBody req), st')
           | GetHealth \<Rightarrow> (\<lparr>reply = health isoNow, upstreamCalls = []\<rparr>, st')
           | _ \<Rightarrow> (\<lparr>reply = json 404 NotFound, upstreamCalls = []\<rparr>, st')))"





section \<open>The spec's reading of a valid text, and inputs for the examples\<close>

text \<open>
  The spec's words: a text is valid only if, after trimming white space, it is non-empty
  and its whitespace-delimited token count is at most 1000.
\<close>

definition validText :: "jsvalue \<Rightarrow> bool" where
  "validText v =
     (case v of JStr t \<Rightarrow> trim t \<noteq> [] \<and> tokenCount (trim t) \<le> 1000 | _ \<Rightarrow> False)"

definition overLimit :: "jsvalue \<Rightarrow> bool" where
  "overLimit v = (case v of JStr t \<Rightarrow> 1000 < tokenCount (trim t) | _ \<Rightarrow> False)"

fun isString :: "jsvalue \<Rightarrow> bool" where
  "isString (JStr s) = True"
| "isString _ = False"

text \<open>The bodies \<^verbatim>\<open>{"text": " "}\<close>, \<^verbatim>\<open>{"text": "hi"}\<close>, \<^verbatim>\<open>{"text": 5}\<close> and \<^verbatim>\<open>{"text": true}\<close>.\<close>

definition blankBody :: jsvalue where
  "blankBody = JObj [(ascii ''text'', JStr [0x20])]"

definition hiBody :: jsvalue where
  "hiBody = JObj [(ascii ''text'', JStr [0x68, 0x69])]"

definition numberBody :: jsvalue where
  "numberBody = JObj [(ascii ''text'', JNum 5)]"

definition trueBody :: jsvalue where
  "trueBody = JObj [(ascii ''text'', JBool True)]"

text \<open>
  Upstream services: one that resolves with a \<^verbatim>\<open>null\<close> content, one that resolves with
  the content \<^verbatim>\<open>" "\<close>, and three that reject: with the code \<^verbatim>\<open>invalid_api_key\<close>,
  with the code \<^verbatim>\<open>insufficient_quota\<close>, and with an error that has no code.
\<close>

definition upstreamNoContent :: upstream where
  "upstreamNoContent s = Inr (Some \<lparr>choices = Some [\<lparr>message = Some \<lparr>content = None\<rparr>\<rparr>]\<rparr>)"

definition upstreamBlank :: upstream where
  "upstreamBlank s = Inr (Some \<lparr>choices = Some [\<lparr>message = Some \<lparr>content = Some [0x20]\<rparr>\<rparr>]\<rparr>)"

definition upstreamInvalidKey :: upstream where
  "upstreamInvalidKey s = Inl (APIError (JStr (ascii ''invalid_api_key'')))"

definition upstreamNoQuota :: upstream where
  "upstreamNoQuota s = Inl (APIError (JStr (ascii ''insufficient_quota'')))"

definition upstreamNoCode :: upstream where
  "upstreamNoCode s = Inl (APIError JUndefined)"

text \<open>
  Modelled from the spec: a client's window is still active at the time \<open>now\<close> while
  its 24 hours have not elapsed. It is the test of \<open>currentWindow\<close>, of the package that
  is not under \<^verbatim>\<open>src/\<close>.
\<close>

definition windowActive :: "nat \<Rightarrow> ClientQuotaRecord \<Rightarrow> bool" where
  "windowActive now r \<longleftrightarrow> now < windowStart r + duration * 1000"

text \<open>
  A client, a store in which it has used up a capacity of 1 in the window that started
  at time 0, two of its requests, and the time stamp of the fifth second.
\<close>

definition clientA :: clientId where
  "clientA = ascii ''10.0.0.1''"

definition exhaustedStore :: quotaStore where
  "exhaustedStore = [clientA \<mapsto> \<lparr>consumedCount = 1, windowStart = 0\<rparr>]"

definition healthRequest :: request where
  "healthRequest = \<lparr>route = GetHealth, ip = clientA, reqBody = JUndefined\<rparr>"

definition humanizeRequest :: request where
  "humanizeRequest = \<lparr>route = PostHumanize, ip = clientA, reqBody = hiBody\<rparr>"

definition isoNow5 :: jsstring where
  "isoNow5 = ascii ''1970-01-01T00:00:05.000Z''"



section \<open>The word count of the code is the spec's token count\<close>

lemma tokensFrom_dropWhile:
  "tokensFrom [] (dropWhile isWhiteSpace cs) = tokensFrom [] cs"
  by (induction cs) auto

lemma tokensFrom_splitLoop:
  "tokensFrom p s = filter (\<lambda>x. x \<noteq> []) (splitLoop p s)"
  by (induction p s rule: splitLoop.induct) (auto simp: tokensFrom_dropWhile)

lemma last_dropWhile:
  "dropWhile P xs \<noteq> [] \<Longrightarrow> last (dropWhile P xs) = last xs"
proof -
  assume ne: "dropWhile P xs \<noteq> []"
  have "last xs = last (takeWhile P xs @ dropWhile P xs)" by simp
  also have "\<dots> = last (dropWhile P xs)" using ne by (simp only: last_append if_False)
  finally show ?thesis by simp
qed

lemma splitLoop_pieces_nonempty:
  "(p \<noteq> [] \<or> (s \<noteq> [] \<and> \<not> isWhiteSpace (hd s))) \<Longrightarrow>
   (s = [] \<or> \<not> isWhiteSpace (last s)) \<Longrightarrow> [] \<notin> set (splitLoop p s)"
proof (induction p s rule: splitLoop.induct)
  case (1 piece)
  then show ?case by simp
next
  case (2 piece c cs)
  show ?case
  proof (cases "isWhiteSpace c")
    case True
    with "2.prems" have p: "piece \<noteq> []" and cs: "cs \<noteq> []" and l: "\<not> isWhiteSpace (last cs)"
      by (auto split: if_splits)
    let ?r = "dropWhile isWhiteSpace cs"
    from cs l have r: "?r \<noteq> []"
      by (metis dropWhile_eq_Nil_conv last_in_set)
    then have "\<not> isWhiteSpace (hd ?r)" by (rule hd_dropWhile)
    moreover have "\<not> isWhiteSpace (last ?r)" using r l by (simp add: last_dropWhile)
    ultimately have "[] \<notin> set (splitLoop [] ?r)"
      using "2.IH"(1) [OF True] r by blast
    with True p show ?thesis by simp
  next
    case False
    from "2.prems"(2) have "cs = [] \<or> \<not> isWhiteSpace (last cs)"
      by (auto split: if_splits)
    then have "[] \<notin> set (splitLoop (piece @ [c]) cs)"
      using "2.IH"(2) [OF False] by simp
    with False show ?thesis by simp
  qed
qed

lemma trim_hd: "trim s \<noteq> [] \<Longrightarrow> \<not> isWhiteSpace (hd (trim s))"
proof -
  assume ne: "trim s \<noteq> []"
  let ?x = "dropWhile isWhiteSpace s"
  let ?y = "dropWhile isWhiteSpace (rev ?x)"
  from ne have y: "?y \<noteq> []" by (simp add: trim_def)
  have x: "?x \<noteq> []"
  proof
    assume e: "?x = []"
    have "?y = []" unfolding e by simp
    with y show False by contradiction
  qed
  have "hd (trim s) = last ?y" using y by (simp add: trim_def hd_rev)
  also have "\<dots> = last (rev ?x)" using y by (rule last_dropWhile)
  also have "\<dots> = hd ?x" using x by (simp add: last_rev)
  finally show ?thesis using hd_dropWhile [OF x] by simp
qed

lemma trim_last: "trim s \<noteq> [] \<Longrightarrow> \<not> isWhiteSpace (last (trim s))"
proof -
  assume ne: "trim s \<noteq> []"
  let ?y = "dropWhile isWhiteSpace (rev (dropWhile isWhiteSpace s))"
  from ne have y: "?y \<noteq> []" by (simp add: trim_def)
  have "last (trim s) = hd ?y" using y by (simp add: trim_def last_rev)
  then show ?thesis using hd_dropWhile [OF y] by simp
qed

lemma split_trim_tokenCount:
  "trim s \<noteq> [] \<Longrightarrow> length (split_ws (trim s)) = tokenCount (trim s)"
proof -
  assume ne: "trim s \<noteq> []"
  have "[] \<notin> set (splitLoop [] (trim s))"
    using ne trim_hd [OF ne] trim_last [OF ne] by (intro splitLoop_pieces_nonempty) auto
  then have "filter (\<lambda>x. x \<noteq> []) (splitLoop [] (trim s)) = splitLoop [] (trim s)"
    by (auto simp: filter_id_conv)
  then show ?thesis
    by (simp add: split_ws_def tokenCount_def tokens_def tokensFrom_splitLoop)
qed

lemma trim_Nil: "trim [] = []" by (simp add: trim_def)

lemma tokenCount_Nil: "tokenCount [] = 0" by (simp add: tokenCount_def tokens_def)

lemma validate_string:
  "validate (JStr s) =
     (if trim s = [] then Inr (Invalid (json 400 (ErrorBody ''Please provide text to humanize'')))
      else if 1000 < tokenCount (trim s)
      then Inr (Invalid (json 400 (ErrorBody ''Text exceeds 1000 words limit'')))
      else Inr (Valid s (tokenCount (trim s))))"
proof (cases "trim s = []")
  case True
  then show ?thesis by (cases "s = []") (simp_all add: validate_def)
next
  case False
  then have "s \<noteq> []" by (auto simp: trim_Nil)
  with False show ?thesis
    by (simp add: validate_def split_trim_tokenCount Let_def)
qed

lemma validate_falsy:
  "\<not> truthy v \<Longrightarrow> validate v = Inr (Invalid (json 400 (ErrorBody ''Please provide text to humanize'')))"
  by (simp add: validate_def)

lemma validate_truthy_nonstring:
  "truthy v \<Longrightarrow> \<not> isString v \<Longrightarrow> validate v = Inl TypeError"
  by (cases v) (simp_all add: validate_def)

lemma catchError_TypeError:
  "catchError TypeError = json 500 (ErrorBody ''Failed to humanize text. Please try again.'')"
  by (simp add: catchError_def)


lemma humanize_falsy:
  assumes "textOf b = Inr v" and "\<not> truthy v"
  shows "humanize up b =
    \<lparr>reply = json 400 (ErrorBody ''Please provide text to humanize''), upstreamCalls = []\<rparr>"
  using assms by (simp add: humanize_def validate_falsy)

lemma humanize_blank:
  assumes "textOf b = Inr (JStr s)" and "trim s = []"
  shows "humanize up b =
    \<lparr>reply = json 400 (ErrorBody ''Please provide text to humanize''), upstreamCalls = []\<rparr>"
  using assms by (simp add: humanize_def validate_string)

lemma humanize_over:
  assumes "textOf b = Inr (JStr s)" and "trim s \<noteq> []" and "1000 < tokenCount (trim s)"
  shows "humanize up b =
    \<lparr>reply = json 400 (ErrorBody ''Text exceeds 1000 words limit''), upstreamCalls = []\<rparr>"
  using assms by (simp add: humanize_def validate_string)

lemma humanize_valid:
  assumes "textOf b = Inr (JStr s)" and "trim s \<noteq> []" and "tokenCount (trim s) \<le> 1000"
  shows "humanize up b =
    (case up s of
       Inl e \<Rightarrow> \<lparr>reply = catchError e, upstreamCalls = [s]\<rparr>
     | Inr c \<Rightarrow> \<lparr>reply = shape (tokenCount (trim s)) c, upstreamCalls = [s]\<rparr>)"
  using assms by (simp add: humanize_def validate_string)

lemma humanize_throw:
  assumes "textOf b = Inr v" and "truthy v" and "\<not> isString v"
  shows "humanize up b =
    \<lparr>reply = json 500 (ErrorBody ''Failed to humanize text. Please try again.''), upstreamCalls = []\<rparr>"
  using assms by (simp add: humanize_def validate_truthy_nonstring catchError_TypeError)

lemma humanize_no_body:
  assumes "textOf b = Inl e"
  shows "humanize up b = \<lparr>reply = catchError e, upstreamCalls = []\<rparr>"
  using assms by (simp add: humanize_def)

lemma status_catchError: "status (catchError e) = 500"
  by (simp add: catchError_def json_def)

lemma textOf_blankBody: "textOf blankBody = Inr (JStr [0x20])"
  by (simp add: blankBody_def ascii_def)

lemma textOf_hiBody: "textOf hiBody = Inr (JStr [0x68, 0x69])"
  by (simp add: hiBody_def ascii_def)

lemma textOf_numberBody: "textOf numberBody = Inr (JNum 5)"
  by (simp add: numberBody_def ascii_def)

lemma textOf_trueBody: "textOf trueBody = Inr (JBool True)"
  by (simp add: trueBody_def ascii_def)

lemma trim_blank: "trim [0x20] = []"
  by (simp add: trim_def isWhiteSpace_def)

lemma trim_hi: "trim [0x68, 0x69] = [0x68, 0x69]"
  by (simp add: trim_def isWhiteSpace_def)

lemma tokenCount_hi: "tokenCount [0x68, 0x69] = 1"
  by (simp add: tokenCount_def tokens_def isWhiteSpace_def)

section \<open>Validation\<close>

text \<open>
  Claim C1, as the code has it. For every POST /api/humanize request that has a parsed
  body (\<^verbatim>\<open>req.body\<close> is neither \<^verbatim>\<open>undefined\<close> nor \<^verbatim>\<open>null\<close>, so that \<open>textOf\<close>
  returns) and whose \<open>text\<close> is absent, falsy or a string, the validation of the
  handler succeeds exactly when the text, after trimming white space, is non-empty and
  has at most 1000 whitespace-delimited tokens, and then the handler goes on to the
  upstream call;
  otherwise the handler responds 400, with the message "Text exceeds 1000 words limit"
  when the text has more than 1000 tokens and "Please provide text to humanize" when it
  is absent, falsy or only white space, and no upstream call is made.
\<close>

theorem validation_decides:
  assumes "textOf b = Inr v" and "\<not> truthy v \<or> isString v"
  shows "((\<exists>t n. validate v = Inr (Valid t n)) \<longleftrightarrow> validText v)
    \<and> (validText v \<longrightarrow> upstreamCalls (humanize up b) \<noteq> [])
    \<and> (\<not> validText v \<longrightarrow>
          humanize up b =
            \<lparr>reply = json 400 (ErrorBody (if overLimit v then ''Text exceeds 1000 words limit''
                                            else ''Please provide text to humanize'')),
             upstreamCalls = []\<rparr>)"
proof (cases "isString v")
  case False
  with assms(2) have f: "\<not> truthy v" by simp
  from False have "\<not> validText v" and "\<not> overLimit v"
    by (cases v; simp add: validText_def overLimit_def)+
  then show ?thesis
    using humanize_falsy [OF assms(1) f, of up] validate_falsy [OF f] by simp
next
  case True
  then obtain s where s: "v = JStr s" by (cases v) simp_all
  note t = assms(1) [unfolded s]
  consider (blank) "trim s = []"
    | (over) "trim s \<noteq> []" "1000 < tokenCount (trim s)"
    | (ok) "trim s \<noteq> []" "tokenCount (trim s) \<le> 1000"
    by linarith
  then show ?thesis
  proof cases
    case blank
    then show ?thesis
      using humanize_blank [OF t blank, of up]
      by (simp add: s validText_def overLimit_def validate_string tokenCount_Nil)
  next
    case over
    then show ?thesis
      using humanize_over [OF t over, of up]
      by (simp add: s validText_def overLimit_def validate_string)
  next
    case ok
    then show ?thesis
      using humanize_valid [OF t ok, of up]
      by (simp add: s validText_def overLimit_def validate_string split: sum.splits)
  qed
qed

text \<open>The theorem at the bodies \<^verbatim>\<open>{"text": " "}\<close> and \<^verbatim>\<open>{"text": "hi"}\<close>.\<close>

theorem validation_decides_witness:
  "textOf blankBody = Inr (JStr [0x20])
   \<and> isString (JStr [0x20])
   \<and> \<not> validText (JStr [0x20])
   \<and> humanize upstreamBlank blankBody =
       \<lparr>reply = json 400 (ErrorBody ''Please provide text to humanize''), upstreamCalls = []\<rparr>
   \<and> textOf hiBody = Inr (JStr [0x68, 0x69])
   \<and> validText (JStr [0x68, 0x69])
   \<and> (\<exists>t n. validate (JStr [0x68, 0x69]) = Inr (Valid t n))
   \<and> upstreamCalls (humanize upstreamBlank hiBody) \<noteq> []"
proof -
  have h: "\<not> truthy (JStr [0x20]) \<or> isString (JStr [0x20])" by simp
  have n: "\<not> validText (JStr [0x20])" "\<not> overLimit (JStr [0x20])"
    by (simp_all add: validText_def overLimit_def trim_blank tokenCount_Nil)
  have h': "\<not> truthy (JStr [0x68, 0x69]) \<or> isString (JStr [0x68, 0x69])" by simp
  have v: "validText (JStr [0x68, 0x69])"
    by (simp add: validText_def trim_hi tokenCount_hi)
  from validation_decides [OF textOf_blankBody h, of upstreamBlank]
    validation_decides [OF textOf_hiBody h', of upstreamBlank] n v
  show ?thesis by (simp add: textOf_blankBody textOf_hiBody)
qed

text \<open>
  Claim C1 as the spec states it speaks of every request. A request whose \<open>text\<close> is the
  number 5 has no valid text, and the handler does not respond 400 but 500; so does it
  for a request without a parsed body, where reading \<open>text\<close> throws.
\<close>

theorem validation_500_counterexample:
  "textOf numberBody = Inr (JNum 5) \<and> \<not> validText (JNum 5)
   \<and> status (reply (humanize upstreamBlank numberBody)) = 500
   \<and> textOf JUndefined = Inl TypeError
   \<and> status (reply (humanize upstreamBlank JUndefined)) = 500"
  by (simp add: textOf_numberBody validText_def humanize_def validate_def catchError_def json_def)

text \<open>
  Claim C5. For every successful (status 200) response of POST /api/humanize, the
  submitted text is a string and \<open>originalWordCount\<close> is the number of
  whitespace-delimited tokens of the trimmed text.
\<close>

theorem originalWordCount_is_tokenCount:
  assumes "status (reply (humanize up b)) = 200"
  shows "\<exists>s h c. textOf b = Inr (JStr s)
           \<and> body (reply (humanize up b)) = HumanizeBody h (tokenCount (trim s)) c"
proof (cases "textOf b")
  case (Inl e)
  with assms show ?thesis
    by (simp add: humanize_no_body status_catchError)
next
  case (Inr v)
  show ?thesis
  proof (cases "isString v")
    case False
    have "status (reply (humanize up b)) \<noteq> 200"
    proof (cases "truthy v")
      case True
      then show ?thesis by (simp add: humanize_throw [OF Inr True False] json_def)
    next
      case f: False
      then show ?thesis by (simp add: humanize_falsy [OF Inr f] json_def)
    qed
    with assms show ?thesis by simp
  next
    case True
    then obtain s where s: "v = JStr s" by (cases v) simp_all
    note t = Inr [unfolded s]
    consider (blank) "trim s = []"
      | (over) "trim s \<noteq> []" "1000 < tokenCount (trim s)"
      | (ok) "trim s \<noteq> []" "tokenCount (trim s) \<le> 1000"
      by linarith
    then show ?thesis
    proof cases
      case blank
      with assms show ?thesis by (simp add: humanize_blank [OF t blank] json_def)
    next
      case over
      with assms show ?thesis by (simp add: humanize_over [OF t over] json_def)
    next
      case ok
      show ?thesis
      proof (cases "up s")
        case (Inl e)
        with assms show ?thesis
          by (simp add: humanize_valid [OF t ok] status_catchError)
      next
        case (Inr c)
        then show ?thesis
          by (simp add: humanize_valid [OF t ok] t shape_def json_def Let_def)
      qed
    qed
  qed
qed

text \<open>The theorem at the body \<^verbatim>\<open>{"text": "hi"}\<close>.\<close>

theorem originalWordCount_is_tokenCount_witness:
  "status (reply (humanize upstreamBlank hiBody)) = 200
   \<and> (\<exists>s h c. textOf hiBody = Inr (JStr s)
          \<and> body (reply (humanize upstreamBlank hiBody)) = HumanizeBody h (tokenCount (trim s)) c)"
proof -
  have "humanize upstreamBlank hiBody =
      \<lparr>reply = shape 1 (Some \<lparr>choices = Some [\<lparr>message = Some \<lparr>content = Some [0x20]\<rparr>\<rparr>]\<rparr>),
       upstreamCalls = [[0x68, 0x69]]\<rparr>"
    using humanize_valid [OF textOf_hiBody, of upstreamBlank]
    by (simp add: trim_hi tokenCount_hi upstreamBlank_def)
  then have h: "status (reply (humanize upstreamBlank hiBody)) = 200"
    by (simp add: shape_def json_def Let_def)
  from originalWordCount_is_tokenCount [OF h] h show ?thesis by simp
qed

text \<open>
  Claim C10. For every POST /api/humanize request whose \<open>text\<close> is a truthy value that
  is not a string, the handler responds 500 with the generic message "Failed to humanize
  text. Please try again." and not 400: calling \<open>trim\<close> on the value throws, and the
  \<open>catch\<close> block finds no error code it knows. No upstream call is made.
\<close>

theorem nonstring_text_gives_500:
  assumes "textOf b = Inr v" and "truthy v" and "\<not> isString v"
  shows "humanize up b =
           \<lparr>reply = json 500 (ErrorBody ''Failed to humanize text. Please try again.''),
            upstreamCalls = []\<rparr>"
  using assms by (simp add: humanize_def validate_truthy_nonstring catchError_TypeError)

text \<open>The theorem at the body \<^verbatim>\<open>{"text": true}\<close>.\<close>

theorem nonstring_text_gives_500_witness:
  "textOf trueBody = Inr (JBool True) \<and> truthy (JBool True) \<and> \<not> isString (JBool True)
   \<and> humanize upstreamBlank trueBody =
       \<lparr>reply = json 500 (ErrorBody ''Failed to humanize text. Please try again.''),
        upstreamCalls = []\<rparr>"
proof -
  have t: "truthy (JBool True)" and n: "\<not> isString (JBool True)" by simp_all
  from nonstring_text_gives_500 [OF textOf_trueBody t n, of upstreamBlank]
  show ?thesis by (simp add: textOf_trueBody)
qed

section \<open>The upstream call and the response\<close>

lemma humanizeV0_valid:
  assumes "textOf b = Inr (JStr s)" and "trim s \<noteq> []" and "tokenCount (trim s) \<le> 1000"
  shows "humanizeV0 up b =
    (case up s of
       Inl e \<Rightarrow> \<lparr>reply = catchError e, upstreamCalls = [s]\<rparr>
     | Inr c \<Rightarrow>
         (case shapeV0 (tokenCount (trim s)) c of
            Inl e \<Rightarrow> \<lparr>reply = catchError e, upstreamCalls = [s]\<rparr>
          | Inr r \<Rightarrow> \<lparr>reply = r, upstreamCalls = [s]\<rparr>))"
  using assms by (simp add: humanizeV0_def validate_string)

lemma quota_code_neq: "ascii ''insufficient_quota'' \<noteq> ascii ''invalid_api_key''"
  by (simp add: ascii_def)

lemma validText_string: "validText (JStr s) \<longleftrightarrow> trim s \<noteq> [] \<and> tokenCount (trim s) \<le> 1000"
  by (simp add: validText_def)

lemma firstContent_upstreamNoContent:
  "upstreamNoContent s = Inr c \<Longrightarrow> firstContent c = None"
  by (auto simp: upstreamNoContent_def firstContent_def)

lemma split_ws_Nil: "split_ws [] = [[]]"
  by (simp add: split_ws_def)

text \<open>
  Claim C8. For every failure of the upstream completion call (which is only made for a
  valid text), both versions of the handler respond 500 and choose the message by the
  error's code: \<open>insufficient_quota\<close> gives "API quota exceeded. Please check your OpenAI
  account.", \<open>invalid_api_key\<close> gives "Invalid API key. Please check your
  configuration.", and any other failure gives "Failed to humanize text. Please try
  again.".
\<close>

theorem upstream_failure_gives_500:
  assumes "textOf b = Inr (JStr s)" and "validText (JStr s)" and "up s = Inl e"
  shows "status (reply (humanize up b)) = 500
    \<and> (code e = JStr (ascii ''insufficient_quota'') \<longrightarrow>
         body (reply (humanize up b)) =
           ErrorBody ''API quota exceeded. Please check your OpenAI account.'')
    \<and> (code e = JStr (ascii ''invalid_api_key'') \<longrightarrow>
         body (reply (humanize up b)) =
           ErrorBody ''Invalid API key. Please check your configuration.'')
    \<and> (code e \<noteq> JStr (ascii ''insufficient_quota'') \<and> code e \<noteq> JStr (ascii ''invalid_api_key'') \<longrightarrow>
         body (reply (humanize up b)) = ErrorBody ''Failed to humanize text. Please try again.'')
    \<and> reply (humanizeV0 up b) = reply (humanize up b)"
proof -
  from assms(2) have ok: "trim s \<noteq> []" "tokenCount (trim s) \<le> 1000"
    by (simp_all add: validText_string)
  have r: "reply (humanize up b) = catchError e"
    by (simp add: humanize_valid [OF assms(1) ok] assms(3))
  have r0: "reply (humanizeV0 up b) = catchError e"
    by (simp add: humanizeV0_valid [OF assms(1) ok] assms(3))
  show ?thesis
    unfolding r r0 using quota_code_neq by (simp add: catchError_def json_def)
qed

text \<open>
  The theorem at the body \<^verbatim>\<open>{"text": "hi"}\<close> and the three upstreams that reject.
\<close>

theorem upstream_failure_gives_500_witness:
  "textOf hiBody = Inr (JStr [0x68, 0x69]) \<and> validText (JStr [0x68, 0x69])
   \<and> upstreamInvalidKey [0x68, 0x69] = Inl (APIError (JStr (ascii ''invalid_api_key'')))
   \<and> reply (humanize upstreamInvalidKey hiBody) =
        json 500 (ErrorBody ''Invalid API key. Please check your configuration.'')
   \<and> reply (humanizeV0 upstreamInvalidKey hiBody) =
        json 500 (ErrorBody ''Invalid API key. Please check your configuration.'')
   \<and> upstreamNoQuota [0x68, 0x69] = Inl (APIError (JStr (ascii ''insufficient_quota'')))
   \<and> reply (humanize upstreamNoQuota hiBody) =
        json 500 (ErrorBody ''API quota exceeded. Please check your OpenAI account.'')
   \<and> upstreamNoCode [0x68, 0x69] = Inl (APIError JUndefined)
   \<and> reply (humanize upstreamNoCode hiBody) =
        json 500 (ErrorBody ''Failed to humanize text. Please try again.'')"
proof -
  have v: "validText (JStr [0x68, 0x69])"
    by (simp add: validText_string trim_hi tokenCount_hi)
  have u: "upstreamInvalidKey [0x68, 0x69] = Inl (APIError (JStr (ascii ''invalid_api_key'')))"
    by (simp add: upstreamInvalidKey_def)
  have q: "upstreamNoQuota [0x68, 0x69] = Inl (APIError (JStr (ascii ''insufficient_quota'')))"
    by (simp add: upstreamNoQuota_def)
  have c: "upstreamNoCode [0x68, 0x69] = Inl (APIError JUndefined)"
    by (simp add: upstreamNoCode_def)
  have r: "reply (humanize up hiBody) =
          \<lparr>status = status (reply (humanize up hiBody)),
           body = body (reply (humanize up hiBody))\<rparr>" for up
    by simp
  have k: "reply (humanize upstreamInvalidKey hiBody) =
        json 500 (ErrorBody ''Invalid API key. Please check your configuration.'')
     \<and> reply (humanizeV0 upstreamInvalidKey hiBody) =
        json 500 (ErrorBody ''Invalid API key. Please check your configuration.'')"
    using upstream_failure_gives_500 [where up = upstreamInvalidKey, OF textOf_hiBody v u]
      r [of upstreamInvalidKey]
    by (simp add: json_def)
  have k2: "reply (humanize upstreamNoQuota hiBody) =
        json 500 (ErrorBody ''API quota exceeded. Please check your OpenAI account.'')"
    using upstream_failure_gives_500 [where up = upstreamNoQuota, OF textOf_hiBody v q]
      r [of upstreamNoQuota]
    by (simp add: json_def)
  have k3: "reply (humanize upstreamNoCode hiBody) =
        json 500 (ErrorBody ''Failed to humanize text. Please try again.'')"
    using upstream_failure_gives_500 [where up = upstreamNoCode, OF textOf_hiBody v c]
      r [of upstreamNoCode]
    by (simp add: json_def)
  from k k2 k3 v u q c show ?thesis by (simp add: textOf_hiBody)
qed

text \<open>
  Claim C6, as the code has it. In the handler of \<^verbatim>\<open>server.js\<close>, if the upstream call
  succeeds but returns no message content (a level of the completion is missing, or the
  content is \<^verbatim>\<open>null\<close> or empty), the response is 200 with \<open>humanizedText\<close> the empty
  string and \<open>humanizedWordCount\<close> 0.
\<close>

theorem no_content_gives_empty_text:
  assumes "textOf b = Inr (JStr s)" and "validText (JStr s)" and "up s = Inr c"
    and "firstContent c = None \<or> firstContent c = Some []"
  shows "reply (humanize up b) = json 200 (HumanizeBody [] (tokenCount (trim s)) 0)"
proof -
  from assms(2) have ok: "trim s \<noteq> []" "tokenCount (trim s) \<le> 1000"
    by (simp_all add: validText_string)
  have "reply (humanize up b) = shape (tokenCount (trim s)) c"
    by (simp add: humanize_valid [OF assms(1) ok] assms(3))
  with assms(4) show ?thesis
    by (auto simp: shape_def trim_Nil)
qed

text \<open>The theorem at the body \<^verbatim>\<open>{"text": "hi"}\<close> and an upstream with a \<^verbatim>\<open>null\<close> content.\<close>

theorem no_content_gives_empty_text_witness:
  "textOf hiBody = Inr (JStr [0x68, 0x69]) \<and> validText (JStr [0x68, 0x69])
   \<and> (\<exists>c. upstreamNoContent [0x68, 0x69] = Inr c \<and> firstContent c = None)
   \<and> reply (humanize upstreamNoContent hiBody) = json 200 (HumanizeBody [] 1 0)"
proof -
  have v: "validText (JStr [0x68, 0x69])"
    by (simp add: validText_string trim_hi tokenCount_hi)
  obtain c where u: "upstreamNoContent [0x68, 0x69] = Inr c"
    by (simp add: upstreamNoContent_def)
  have n: "firstContent c = None \<or> firstContent c = Some []"
    using firstContent_upstreamNoContent [OF u] by simp
  from no_content_gives_empty_text [where up = upstreamNoContent, OF textOf_hiBody v u n] v u firstContent_upstreamNoContent [OF u]
  show ?thesis by (simp add: textOf_hiBody trim_hi tokenCount_hi)
qed

text \<open>
  Claim C6 as the spec states it speaks of both versions of the handler. The earlier
  version has no guard: on a \<^verbatim>\<open>null\<close> content \<^verbatim>\<open>humanizedText.split\<close> throws and the
  response is 500 with the generic message.
\<close>

theorem no_content_v0_counterexample:
  "firstContent (Some \<lparr>choices = Some [\<lparr>message = Some \<lparr>content = None\<rparr>\<rparr>]\<rparr>) = None
   \<and> upstreamNoContent [0x68, 0x69] = Inr (Some \<lparr>choices = Some [\<lparr>message = Some \<lparr>content = None\<rparr>\<rparr>]\<rparr>)
   \<and> reply (humanizeV0 upstreamNoContent hiBody) =
        json 500 (ErrorBody ''Failed to humanize text. Please try again.'')"
proof -
  have ok: "trim [0x68, 0x69] \<noteq> []" "tokenCount (trim [0x68, 0x69]) \<le> 1000"
    by (simp_all add: trim_hi tokenCount_hi)
  show ?thesis
    by (simp add: humanizeV0_valid [OF textOf_hiBody ok] upstreamNoContent_def shapeV0_def
        firstContentStrict_def firstContent_def catchError_TypeError)
qed

text \<open>
  What \<^verbatim>\<open>server.js\<close> answers for an upstream text \<open>t\<close>: the trimmed text, and as word
  count 0 for the empty text, the token count of the trimmed text when that is not
  empty, and 1 for a text of white space only.
\<close>

lemma shape_content:
  assumes "firstContent c = Some t"
  shows "shape n c = json 200 (HumanizeBody (trim t) n
           (if t = [] then 0 else if trim t = [] then 1 else tokenCount (trim t)))"
  using assms by (simp add: shape_def split_trim_tokenCount split_ws_Nil)

text \<open>
  Claim C7 at an upstream reply of white space only. The claim says \<open>humanizedText\<close> is
  the empty string and \<open>humanizedWordCount\<close> is 0 there. The handler tests the text
  before trimming it, so for the reply \<^verbatim>\<open>" "\<close> it answers the empty string with the
  word count 1.
\<close>

theorem blank_reply_counts_one_word:
  "humanize upstreamBlank hiBody =
     \<lparr>reply = json 200 (HumanizeBody [] 1 1), upstreamCalls = [[0x68, 0x69]]\<rparr>"
proof -
  have ok: "trim [0x68, 0x69] \<noteq> []" "tokenCount (trim [0x68, 0x69]) \<le> 1000"
    by (simp_all add: trim_hi tokenCount_hi)
  show ?thesis
    by (simp add: humanize_valid [OF textOf_hiBody ok] upstreamBlank_def shape_def
        firstContent_def trim_blank trim_hi tokenCount_hi split_ws_Nil)
qed

section \<open>The quota and the order of the pipeline\<close>

lemma RATE_LIMIT_POINTS_default: "RATE_LIMIT_POINTS None = 1000" "RATE_LIMIT_POINTS (Some 0) = 1000"
  by (simp_all add: RATE_LIMIT_POINTS_def)

lemma RATE_LIMIT_POINTS_nonzero: "RATE_LIMIT_POINTS parsed \<noteq> 0"
  by (simp add: RATE_LIMIT_POINTS_def split: option.splits)

lemma currentWindow_active:
  "store k = Some r \<Longrightarrow> windowActive now r \<Longrightarrow> currentWindow now store k = r"
  by (simp add: currentWindow_def windowActive_def)




lemma admit_active_full:
  assumes "store k = Some r" and "windowActive now r" and "capacity \<le> int (consumedCount r)"
  shows "admit capacity now k store = (Rejected, store)"
  using assms by (simp add: admit_def currentWindow_active fun_upd_idem)


lemma app_rejected:
  assumes "route req \<noteq> GetRoot" and "fst (consume (ip req) st) = Rejected"
  shows "fst (app consume up isoNow req st) =
    \<lparr>reply = json 429 (ErrorBody
       ''Free daily limit reached. Please try again tomorrow or consider upgrading for higher limits.''),
     upstreamCalls = []\<rparr>"
  using assms by (cases "consume (ip req) st") (simp add: app_def rateLimitMiddleware_def)

lemma app_admitted:
  assumes "route req \<noteq> GetRoot" and "fst (consume (ip req) st) = Admitted"
  shows "fst (app consume up isoNow req st) =
    (case route req of
       PostHumanize \<Rightarrow> humanize up (reqBody req)
     | GetHealth \<Rightarrow> \<lparr>reply = health isoNow, upstreamCalls = []\<rparr>
     | _ \<Rightarrow> \<lparr>reply = json 404 NotFound, upstreamCalls = []\<rparr>)"
  using assms
  by (cases "consume (ip req) st") (simp add: app_def rateLimitMiddleware_def split: route.splits)













lemma admit_exhaustedStore: "admit 1 5000 clientA exhaustedStore = (Rejected, exhaustedStore)"
proof -
  have "exhaustedStore clientA = Some \<lparr>consumedCount = 1, windowStart = 0\<rparr>"
    by (simp add: exhaustedStore_def)
  moreover have "windowActive 5000 \<lparr>consumedCount = 1, windowStart = 0\<rparr>"
    by (simp add: windowActive_def duration_def)
  ultimately show ?thesis
    using admit_active_full [where store = exhaustedStore and k = clientA and capacity = 1 and now = 5000]
    by simp
qed

lemma admit_empty: "fst (admit 1 5000 clientA Map.empty) = Admitted"
  by (simp add: admit_def currentWindow_def)






text \<open>
  Claim C4. For every POST /api/humanize request of a client that the limiter rejects,
  the response is 429 whatever the body is, and no upstream call is made: the limiter
  decides before the handler runs.
\<close>

theorem exhausted_client_gets_429:
  assumes "route req = PostHumanize" and "fst (consume (ip req) st) = Rejected"
  shows "status (reply (fst (app consume up isoNow req st))) = 429
    \<and> upstreamCalls (fst (app consume up isoNow req st)) = []"
  using assms by (simp add: app_rejected json_def)

text \<open>The theorem for the exhausted client and the body \<^verbatim>\<open>{"text": "hi"}\<close>.\<close>

theorem exhausted_client_gets_429_witness:
  "route humanizeRequest = PostHumanize
   \<and> fst (admit 1 5000 (ip humanizeRequest) exhaustedStore) = Rejected
   \<and> status (reply (fst (app (admit 1 5000) upstreamBlank isoNow5 humanizeRequest exhaustedStore))) = 429
   \<and> upstreamCalls (fst (app (admit 1 5000) upstreamBlank isoNow5 humanizeRequest exhaustedStore)) = []"
proof -
  have r: "route humanizeRequest = PostHumanize" by (simp add: humanizeRequest_def)
  have a: "fst (admit 1 5000 (ip humanizeRequest) exhaustedStore) = Rejected"
    by (simp add: humanizeRequest_def admit_exhaustedStore)
  from exhausted_client_gets_429 [where consume = "admit 1 5000" and st = exhaustedStore, OF r a] r a
  show ?thesis by simp
qed

text \<open>
  Claim C9, as the code has it. The health route is registered after the rate limiting
  middleware: a GET /api/health request that the limiter admits is answered 200 with
  \<open>status\<close> "OK", \<open>service\<close> "Humanivio API" and \<open>timestamp\<close> the ISO-8601 string of
  the current time; one that the limiter rejects is answered 429.
\<close>

theorem health_behind_rate_limit:
  assumes "route req = GetHealth"
  shows "(fst (consume (ip req) st) = Admitted \<longrightarrow>
            reply (fst (app consume up isoNow req st)) =
              json 200 (HealthBody ''OK'' ''Humanivio API'' isoNow))
    \<and> (fst (consume (ip req) st) = Rejected \<longrightarrow>
            status (reply (fst (app consume up isoNow req st))) = 429)"
  using assms by (simp add: app_rejected app_admitted health_def json_def)

text \<open>The theorem for the health checks of a new client and of an exhausted one.\<close>

theorem health_behind_rate_limit_witness:
  "route healthRequest = GetHealth
   \<and> fst (admit 1 5000 (ip healthRequest) Map.empty) = Admitted
   \<and> reply (fst (app (admit 1 5000) upstreamBlank isoNow5 healthRequest Map.empty)) =
        json 200 (HealthBody ''OK'' ''Humanivio API'' isoNow5)
   \<and> fst (admit 1 5000 (ip healthRequest) exhaustedStore) = Rejected
   \<and> status (reply (fst (app (admit 1 5000) upstreamBlank isoNow5 healthRequest exhaustedStore)))
        = 429"
proof -
  have r: "route healthRequest = GetHealth" by (simp add: healthRequest_def)
  have a: "fst (admit 1 5000 (ip healthRequest) Map.empty) = Admitted"
    by (simp add: healthRequest_def admit_empty)
  have x: "fst (admit 1 5000 (ip healthRequest) exhaustedStore) = Rejected"
    by (simp add: healthRequest_def admit_exhaustedStore)
  from health_behind_rate_limit [where consume = "admit 1 5000" and st = Map.empty, OF r]
    health_behind_rate_limit [where consume = "admit 1 5000" and st = exhaustedStore, OF r] r a x
  show ?thesis by simp
qed

text \<open>
  Claim C9 as the spec states it includes the clients whose daily quota is exhausted.
  The health check of such a client is answered 429.
\<close>

theorem health_exhausted_counterexample:
  "fst (admit 1 5000 (ip healthRequest) exhaustedStore) = Rejected
   \<and> route healthRequest = GetHealth
   \<and> status (reply (fst (app (admit 1 5000) upstreamBlank isoNow5 healthRequest exhaustedStore))) = 429"
proof -
  have r: "route healthRequest \<noteq> GetRoot" by (simp add: healthRequest_def)
  have a: "fst (admit 1 5000 (ip healthRequest) exhaustedStore) = Rejected"
    by (simp add: healthRequest_def admit_exhaustedStore)
  show ?thesis
    using app_rejected [where consume = "admit 1 5000" and st = exhaustedStore, OF r a] a
    by (simp add: json_def healthRequest_def)
qed

end
